theory Spec2Isabelle
  imports Complex_Main "HOL-Library.Word" "HOL-Library.Sublist" "HOL-Library.Product_Lexorder"
begin

unbundle bit_operations_syntax

section \<open>JavaScript values and exceptions\<close>

text \<open>
  The consensus engine is JavaScript. A thrown exception is a value of type \<open>exn\<close>; a
  function that may throw returns \<open>exn + 'a\<close>, with \<open>Inl\<close> for the exception.
  \<open>Thrown\<close> stands for whatever an external library throws.
\<close>

datatype exn = TypeError | RangeError | Thrown string

text \<open>A reference that may be \<open>undefined\<close> or \<open>null\<close> instead of an object.\<close>

datatype 'a nullable = Undefined | Null | Val 'a

text \<open>
  The values the threshold predicates handle: \<open>undefined\<close>, \<open>null\<close>, a boolean, or some
  object or array (\<open>JObject\<close>).
\<close>

datatype jsval = JUndefined | JNull | JBool bool | JObject

fun truthy :: "jsval \<Rightarrow> bool" where
  "truthy JUndefined = False"
| "truthy JNull = False"
| "truthy (JBool b) = b"
| "truthy JObject = True"

type_synonym byte = "8 word"

section \<open>Data model\<close>

record header =
  height :: int
  id' :: string
  timestamp :: int

record block = header +
  generatorPublicKey :: string

record propose = block +
  address :: string
  hash :: string
  nonce :: nat
  signature :: string

record voteItem =
  key :: string
  sig :: string

text \<open>
  A votes object; \<open>'s\<close> is the type of its \<open>signatures\<close> property: an array for the
  accumulator the engine builds itself, a possibly missing array for an object that
  comes from outside.
\<close>

record 's votes = header +
  signatures :: 's

type_synonym pending_votes = "voteItem list votes"
type_synonym incoming_votes = "voteItem list nullable votes"

text \<open>
  The state of \<open>Consensus\<close>. \<open>votesKeySet\<close> is a plain object used as a dictionary
  whose values are all \<open>true\<close>: it is modelled by the set of its own property names.
\<close>

record consensus =
  pendingBlock :: "block option"
  pendingVotes :: "pending_votes option"
  votesKeySet :: "string set"

text \<open>
  What the engine takes from modules that are not part of it: the constants of
  \<open>utils/slots.js\<close>, SHA-256 of \<open>crypto\<close>, \<open>ed.Verify\<close>, the delegate index of the
  delegates module, and the byte strings that \<open>getVoteHash\<close> and \<open>getProposeHash\<close>
  write with the ByteBuffer, bignum and ip libraries before they hash them
  (\<open>voteBytes\<close>, \<open>proposeBytes\<close>); writing them may throw.
\<close>

record env =
  delegates :: nat
  leading :: nat
  sha256 :: "byte list \<Rightarrow> byte list"
  edVerify :: "byte list \<Rightarrow> byte list \<Rightarrow> byte list \<Rightarrow> exn + bool"
  voteBytes :: "int \<Rightarrow> string \<Rightarrow> exn + byte list"
  proposeBytes :: "propose \<Rightarrow> exn + byte list"
  getDelegateIndex :: "propose \<Rightarrow> string + int"

text \<open>\<open>crypto.createHash('sha256').update(bytes.toBuffer()).digest()\<close> of both digests.\<close>

definition getVoteHash :: "env \<Rightarrow> int \<Rightarrow> string \<Rightarrow> exn + byte list" where
  "getVoteHash E h i =
     (case voteBytes E h i of Inl e \<Rightarrow> Inl e | Inr bytes \<Rightarrow> Inr (sha256 E bytes))"

definition getProposeHash :: "env \<Rightarrow> propose \<Rightarrow> exn + byte list" where
  "getProposeHash E p =
     (case proposeBytes E p of Inl e \<Rightarrow> Inl e | Inr bytes \<Rightarrow> Inr (sha256 E bytes))"

text \<open>The bytes of a string of ASCII characters, as \<open>update(src)\<close> hashes them.\<close>

definition utf8 :: "string \<Rightarrow> byte list" where
  "utf8 s = map (\<lambda>c. word_of_nat (of_char c)) s"

section \<open>Buffers and strings\<close>

text \<open>
  The digit of value \<open>n < 16\<close>, as \<open>Number.prototype.toString(radix)\<close> and
  \<open>buf.toString('hex')\<close> print it.
\<close>

definition digitChar :: "nat \<Rightarrow> char" where
  "digitChar n = ''0123456789abcdef'' ! n"

definition unhex :: "char \<Rightarrow> nat option" where
  "unhex c =
     (let n = (of_char c :: nat)
      in if 48 \<le> n \<and> n \<le> 57 then Some (n - 48)
         else if 97 \<le> n \<and> n \<le> 102 then Some (n - 87)
         else if 65 \<le> n \<and> n \<le> 70 then Some (n - 55)
         else None)"

text \<open>
  \<open>Buffer.from(s, 'hex')\<close> and \<open>new Buffer(s, 'hex')\<close> on a string: two hex digits
  give one byte, and decoding stops at the first pair that is not two hex digits or
  when fewer than two characters are left.
\<close>

fun bufferFromHex :: "string \<Rightarrow> byte list" where
  "bufferFromHex (a # b # rest) =
     (case unhex a of
        None \<Rightarrow> []
      | Some x \<Rightarrow>
          (case unhex b of
             None \<Rightarrow> []
           | Some y \<Rightarrow> word_of_nat (16 * x + y) # bufferFromHex rest))"
| "bufferFromHex _ = []"

text \<open>\<open>buf.toString('hex')\<close>.\<close>

definition hexByte :: "byte \<Rightarrow> string" where
  "hexByte b = [digitChar (unat b div 16), digitChar (unat b mod 16)]"

definition toHex :: "byte list \<Rightarrow> string" where
  "toHex buf = concat (map hexByte buf)"

text \<open>
  \<open>n.toString(radix)\<close> for a non-negative integer \<open>n\<close> and a radix from 2 to 16 (the
  engine prints in radix 10 and 2 only).
\<close>

function toStringRadix :: "nat \<Rightarrow> nat \<Rightarrow> string" where
  "toStringRadix r n =
     (if r < 2 \<or> n < r then [digitChar n]
      else toStringRadix r (n div r) @ [digitChar (n mod r)])"
  by pat_completeness auto
termination
  by (relation "measure (\<lambda>(r, n). n)") auto

declare toStringRadix.simps [simp del]

text \<open>\<open>s.padStart(n, c)\<close> for a one-character filler.\<close>

definition padStart :: "nat \<Rightarrow> char \<Rightarrow> string \<Rightarrow> string" where
  "padStart n c s = replicate (n - length s) c @ s"

text \<open>\<open>s.indexOf(t)\<close>: the first position where \<open>t\<close> occurs in \<open>s\<close>, or \<open>-1\<close>.\<close>

fun indexOfFrom :: "nat \<Rightarrow> string \<Rightarrow> string \<Rightarrow> int" where
  "indexOfFrom i [] t = (if t = [] then int i else - 1)"
| "indexOfFrom i (c # cs) t =
     (if take (length t) (c # cs) = t then int i else indexOfFrom (Suc i) cs t)"

definition indexOf :: "string \<Rightarrow> string \<Rightarrow> int" where
  "indexOf s t = indexOfFrom 0 s t"

text \<open>\<open>s.split(sep)\<close> for a one-character separator.\<close>

fun splitAcc :: "char \<Rightarrow> string \<Rightarrow> string \<Rightarrow> string list" where
  "splitAcc sep acc [] = [rev acc]"
| "splitAcc sep acc (c # cs) =
     (if c = sep then rev acc # splitAcc sep [] cs else splitAcc sep (c # acc) cs)"

definition splitString :: "char \<Rightarrow> string \<Rightarrow> string list" where
  "splitString sep s = splitAcc sep [] s"

section \<open>Votes: verification and threshold\<close>

text \<open>
  \<open>verifyVote\<close>: the body of the \<open>try\<close> block, then the function with its \<open>catch\<close>,
  which turns every exception into \<open>false\<close>.
\<close>

definition verifyVote_try :: "env \<Rightarrow> int \<Rightarrow> string \<Rightarrow> voteItem \<Rightarrow> exn + bool" where
  "verifyVote_try E h i voteItem =
     (case getVoteHash E h i of
        Inl e \<Rightarrow> Inl e
      | Inr digest \<Rightarrow>
          edVerify E digest (bufferFromHex (sig voteItem)) (bufferFromHex (key voteItem)))"

definition verifyVote :: "env \<Rightarrow> int \<Rightarrow> string \<Rightarrow> voteItem \<Rightarrow> exn + bool" where
  "verifyVote E h i voteItem =
     (case verifyVote_try E h i voteItem of
        Inl e \<Rightarrow> Inr False
      | Inr ok \<Rightarrow> Inr ok)"

text \<open>
  Reading a property of \<open>undefined\<close> or \<open>null\<close> throws a TypeError; an object and an
  array are truthy, also when empty.
\<close>

fun toJsval :: "'a nullable \<Rightarrow> jsval" where
  "toJsval Undefined = JUndefined"
| "toJsval Null = JNull"
| "toJsval (Val x) = JObject"

fun getSignatures :: "'s votes nullable \<Rightarrow> exn + 's" where
  "getSignatures (Val v) = Inr (signatures v)"
| "getSignatures _ = Inl TypeError"

fun getLength :: "'a list nullable \<Rightarrow> exn + nat" where
  "getLength (Val xs) = Inr (length xs)"
| "getLength _ = Inl TypeError"

text \<open>
  \<open>votes && votes.signatures && votes.signatures.length > slots.delegates * 2 / 3\<close>:
  \<open>a && b\<close> is \<open>a\<close> when \<open>a\<close> is falsy and \<open>b\<close> otherwise. The division is the division
  of JavaScript numbers, taken here over the reals.
\<close>

definition hasEnoughVotes :: "env \<Rightarrow> incoming_votes nullable \<Rightarrow> exn + jsval" where
  "hasEnoughVotes E votes =
     (if \<not> truthy (toJsval votes) then Inr (toJsval votes)
      else
        (case getSignatures votes of
           Inl e \<Rightarrow> Inl e
         | Inr sigs \<Rightarrow>
             if \<not> truthy (toJsval sigs) then Inr (toJsval sigs)
             else
               (case getLength sigs of
                  Inl e \<Rightarrow> Inl e
                | Inr n \<Rightarrow> Inr (JBool (real n > real (delegates E) * 2 / 3)))))"

definition hasEnoughVotesRemote :: "incoming_votes nullable \<Rightarrow> exn + jsval" where
  "hasEnoughVotesRemote votes =
     (if \<not> truthy (toJsval votes) then Inr (toJsval votes)
      else
        (case getSignatures votes of
           Inl e \<Rightarrow> Inl e
         | Inr sigs \<Rightarrow>
             if \<not> truthy (toJsval sigs) then Inr (toJsval sigs)
             else
               (case getLength sigs of
                  Inl e \<Rightarrow> Inl e
                | Inr n \<Rightarrow> Inr (JBool (n \<ge> 6)))))"

section \<open>The pending state\<close>

definition initialState :: consensus where
  "initialState = \<lparr>pendingBlock = None, pendingVotes = None, votesKeySet = {}\<rparr>"

definition setPendingBlock :: "block \<Rightarrow> consensus \<Rightarrow> consensus" where
  "setPendingBlock b s = s\<lparr>pendingVotes := None, votesKeySet := {}, pendingBlock := Some b\<rparr>"

definition clearState :: "consensus \<Rightarrow> consensus" where
  "clearState s = s\<lparr>pendingVotes := None, votesKeySet := {}, pendingBlock := None\<rparr>"

text \<open>
  \<open>votesKeySet\<close> is created as \<open>{}\<close>, so a lookup also finds the properties it inherits
  from \<open>Object.prototype\<close>, all of them truthy; and an assignment to \<open>__proto__\<close> of a
  value that is not an object changes nothing.
\<close>

definition objectPrototypeKeys :: "string list" where
  "objectPrototypeKeys =
     [''constructor'', ''__defineGetter__'', ''__defineSetter__'', ''hasOwnProperty'',
      ''__lookupGetter__'', ''__lookupSetter__'', ''isPrototypeOf'',
      ''propertyIsEnumerable'', ''toString'', ''valueOf'', ''__proto__'',
      ''toLocaleString'']"

definition hasKey :: "string set \<Rightarrow> string \<Rightarrow> bool" where
  "hasKey ks k = (k \<in> ks \<or> k \<in> set objectPrototypeKeys)"

definition setKey :: "string set \<Rightarrow> string \<Rightarrow> string set" where
  "setKey ks k = (if k = ''__proto__'' then ks else insert k ks)"

text \<open>The body of the \<open>if (this.verifyVote(...))\<close> branch of the loop.\<close>

definition pushVote :: "incoming_votes \<Rightarrow> voteItem \<Rightarrow> consensus \<Rightarrow> consensus" where
  "pushVote votes item s =
     (let pv = (case pendingVotes s of
                  None \<Rightarrow> \<lparr>height = height votes, id' = id' votes,
                            timestamp = timestamp votes, signatures = []\<rparr>
                | Some pv \<Rightarrow> pv)
      in s\<lparr>votesKeySet := setKey (votesKeySet s) (key item),
            pendingVotes := Some (pv\<lparr>signatures := signatures pv @ [item]\<rparr>)\<rparr>)"

text \<open>
  The \<open>for\<close> loop of \<open>addPendingVotes\<close> over the remaining items. The result is the
  exception that left the loop, if any, and the state reached.
\<close>

fun addSignatures ::
  "env \<Rightarrow> incoming_votes \<Rightarrow> voteItem list \<Rightarrow> consensus \<Rightarrow> exn option \<times> consensus" where
  "addSignatures E votes [] s = (None, s)"
| "addSignatures E votes (item # rest) s =
     (if hasKey (votesKeySet s) (key item) then addSignatures E votes rest s
      else
        (case verifyVote E (height votes) (id' votes) item of
           Inl e \<Rightarrow> (Some e, s)
         | Inr ok \<Rightarrow>
             if ok then addSignatures E votes rest (pushVote votes item s)
             else addSignatures E votes rest s))"

text \<open>
  \<open>addPendingVotes\<close> returns the accumulator (or throws) and leaves a state behind.
  The loop condition reads \<open>votes.signatures.length\<close> first, which throws a TypeError
  when \<open>votes.signatures\<close> is \<open>undefined\<close> or \<open>null\<close>.
\<close>

definition addPendingVotes ::
  "env \<Rightarrow> incoming_votes \<Rightarrow> consensus \<Rightarrow> (exn + pending_votes option) \<times> consensus" where
  "addPendingVotes E votes s =
     (case pendingBlock s of
        None \<Rightarrow> (Inr (pendingVotes s), s)
      | Some b \<Rightarrow>
          if height b \<noteq> height votes \<or> id' b \<noteq> id' votes then (Inr (pendingVotes s), s)
          else
            (case signatures votes of
               Undefined \<Rightarrow> (Inl TypeError, s)
             | Null \<Rightarrow> (Inl TypeError, s)
             | Val items \<Rightarrow>
                 (case addSignatures E votes items s of
                    (Some e, s') \<Rightarrow> (Inl e, s')
                  | (None, s') \<Rightarrow> (Inr (pendingVotes s'), s'))))"

text \<open>Sequences of calls on the pending state.\<close>

datatype op = SetPendingBlock block | ClearState | AddPendingVotes incoming_votes

fun step :: "env \<Rightarrow> consensus \<Rightarrow> op \<Rightarrow> consensus" where
  "step E s (SetPendingBlock b) = setPendingBlock b s"
| "step E s ClearState = clearState s"
| "step E s (AddPendingVotes v) = snd (addPendingVotes E v s)"

definition run :: "env \<Rightarrow> op list \<Rightarrow> consensus" where
  "run E ops = foldl (step E) initialState ops"

text \<open>The keys of the signatures held in the accumulator; none when it is \<open>null\<close>.\<close>

definition pendingKeys :: "consensus \<Rightarrow> string list" where
  "pendingKeys s = (case pendingVotes s of None \<Rightarrow> [] | Some pv \<Rightarrow> map key (signatures pv))"

section \<open>Proof of work\<close>

text \<open>
  The loop shared by \<open>entanmoPoWVerifier\<close> and \<open>proposePoWHashConvert\<close>:
  \<open>for (let i = 0; i < slots.leading; i++) buf.writeUInt8(buf.readUInt8(i) & 0x77, i)\<close>,
  with \<open>k\<close> iterations left at index \<open>i\<close>. \<open>readUInt8\<close> throws a RangeError beyond the
  end of the buffer.
\<close>

primrec maskLoop :: "nat \<Rightarrow> nat \<Rightarrow> byte list \<Rightarrow> exn + byte list" where
  "maskLoop 0 i buf = Inr buf"
| "maskLoop (Suc k) i buf =
     (if i < length buf then maskLoop k (Suc i) (buf[i := (buf ! i) AND 0x77])
      else Inl RangeError)"

definition entanmoPoWVerifier :: "env \<Rightarrow> string \<Rightarrow> nat \<Rightarrow> exn + string" where
  "entanmoPoWVerifier E hashHex n =
     (case maskLoop (leading E) 0 (sha256 E (utf8 (hashHex @ toStringRadix 10 n))) of
        Inl e \<Rightarrow> Inl e
      | Inr buf \<Rightarrow> Inr (toHex buf))"

definition proposePoWHashConvert :: "env \<Rightarrow> string \<Rightarrow> exn + string" where
  "proposePoWHashConvert E hexPoWHash =
     (case maskLoop (leading E) 0 (bufferFromHex hexPoWHash) of
        Inl e \<Rightarrow> Inl e
      | Inr buf \<Rightarrow> Inr (toHex buf))"

text \<open>What a callback receives as its error argument.\<close>

datatype cberr =
    DelegateIndexError string
  | FailedAddressIndex
  | PowHashFailed
  | SignatureFailed
  | SignatureException exn

text \<open>
  \<open>getAddressIndex\<close>: the difficulty string. With \<open>slots.leading = 0\<close> the modulus is 0
  and \<open>index % 0\<close> is \<open>NaN\<close>, printed as \<open>NaN\<close>.
\<close>

definition getAddressIndex :: "env \<Rightarrow> propose \<Rightarrow> cberr + string" where
  "getAddressIndex E p =
     (case getDelegateIndex E p of
        Inl err \<Rightarrow> Inl (DelegateIndexError err)
      | Inr index \<Rightarrow>
          if index < 0 then Inl FailedAddressIndex
          else
            (let m = 2 ^ leading E - (1::nat)
             in if m = 0 then Inr (padStart (leading E) CHR ''0'' ''NaN'')
                else Inr (padStart (leading E) CHR ''0'' (toStringRadix 2 (nat index mod m)))))"

text \<open>
  \<open>verifyPOW\<close>: \<open>Inl\<close> is an exception thrown, \<open>Inr\<close> what the callback receives
  (\<open>Inl err\<close> for \<open>cb(err)\<close>, \<open>Inr ok\<close> for \<open>cb(null, ok)\<close>).
\<close>

definition verifyPOW :: "env \<Rightarrow> propose \<Rightarrow> exn + (cberr + bool)" where
  "verifyPOW E p =
     (case getProposeHash E p of
        Inl e \<Rightarrow> Inl e
      | Inr digest \<Rightarrow>
          (case getAddressIndex E p of
             Inl err \<Rightarrow> Inr (Inl err)
           | Inr target \<Rightarrow>
               (case entanmoPoWVerifier E (toHex digest) (nonce p) of
                  Inl e \<Rightarrow> Inl e
                | Inr sha256Result \<Rightarrow>
                    (case proposePoWHashConvert E (hash p) of
                       Inl e \<Rightarrow> Inl e
                     | Inr proposePoWResult \<Rightarrow>
                         Inr (Inr (sha256Result = proposePoWResult
                                   \<and> indexOf sha256Result target = 0))))))"

text \<open>The \<open>try\<close> block of \<open>acceptPropose\<close>, reached once the proof of work has passed.\<close>

definition verifySignature_try :: "env \<Rightarrow> propose \<Rightarrow> exn + bool" where
  "verifySignature_try E p =
     edVerify E (bufferFromHex (hash p)) (bufferFromHex (signature p))
       (bufferFromHex (generatorPublicKey p))"

text \<open>
  \<open>acceptPropose\<close>: \<open>Inl\<close> is an exception thrown, \<open>Inr\<close> the error the callback
  receives (\<open>None\<close> for \<open>cb()\<close>, the proposal is accepted).
\<close>

definition acceptPropose :: "env \<Rightarrow> propose \<Rightarrow> exn + cberr option" where
  "acceptPropose E p =
     (case verifyPOW E p of
        Inl e \<Rightarrow> Inl e
      | Inr (Inl err) \<Rightarrow> Inr (Some err)
      | Inr (Inr ok) \<Rightarrow>
          if \<not> ok then Inr (Some PowHashFailed)
          else
            (case verifySignature_try E p of
               Inl e \<Rightarrow> Inr (Some (SignatureException e))
             | Inr valid \<Rightarrow> if valid then Inr None else Inr (Some SignatureFailed)))"

text \<open>
  The mask in the words of the specification: the first \<open>L\<close> bytes keep their bits
  \<open>0x77\<close>, that is, lose their bits \<open>0x88\<close>; the other bytes stay.
\<close>

definition mask_spec :: "nat \<Rightarrow> byte list \<Rightarrow> byte list" where
  "mask_spec L buf = map (\<lambda>v. v AND NOT 0x88) (take L buf) @ drop L buf"

section \<open>Version compatibility\<close>

text \<open>
  A JavaScript number is \<open>NaN\<close> or a value of a linear order; \<open>Number\<close>, the conversion
  of a string to a number, is a parameter of \<open>isCompatible\<close>. A comparison with \<open>NaN\<close>
  or with \<open>undefined\<close> is false.
\<close>

datatype 'a jsnum = NaN | Num 'a

fun jsLess :: "'a::linorder jsnum \<Rightarrow> 'a jsnum \<Rightarrow> bool" where
  "jsLess (Num x) (Num y) = (x < y)"
| "jsLess _ _ = False"

text \<open>
  The loop of \<open>isCompatible\<close> over the components left; an index beyond the end of
  \<open>numsCompatible\<close> reads \<open>undefined\<close>.
\<close>

fun compareVersions :: "'a::linorder jsnum list \<Rightarrow> 'a jsnum list \<Rightarrow> bool" where
  "compareVersions [] numsCompatible = True"
| "compareVersions (n # nums) [] = compareVersions nums []"
| "compareVersions (n # nums) (c # numsCompatible) =
     (if jsLess n c then False
      else if jsLess c n then True
      else compareVersions nums numsCompatible)"

definition isCompatible :: "(string \<Rightarrow> 'a::linorder jsnum) \<Rightarrow> string \<Rightarrow> string \<Rightarrow> bool" where
  "isCompatible Number netVersion version =
     (let nums = map Number (splitString CHR ''.'' version)
      in if length nums \<noteq> 3 then True
         else
           (let compatibleVersion =
                  (if netVersion = ''testnet'' then ''1.2.3''
                   else if netVersion = ''mainnet'' then ''1.3.1''
                   else ''0.0.0'');
                numsCompatible = map Number (splitString CHR ''.'' compatibleVersion)
            in compareVersions nums numsCompatible))"

text \<open>\<open>Number\<close> on the strings of decimal digits (the empty string is 0); \<open>NaN\<close> elsewhere.\<close>

fun digitsValue :: "nat \<Rightarrow> string \<Rightarrow> int jsnum" where
  "digitsValue acc [] = Num (int acc)"
| "digitsValue acc (c # cs) =
     (let n = (of_char c :: nat)
      in if 48 \<le> n \<and> n \<le> 57 then digitsValue (10 * acc + (n - 48)) cs else NaN)"

definition decimalNumber :: "string \<Rightarrow> int jsnum" where
  "decimalNumber s = digitsValue 0 s"

section \<open>Seed reconnect\<close>

text \<open>A node of the overlay; its \<open>id\<close> is a digest of \<open>host:port\<close> and is left out.\<close>

record node =
  host :: string
  port :: int

definition isInDht :: "node list \<Rightarrow> node \<Rightarrow> bool" where
  "isInDht allNodes n = list_ex (\<lambda>dn. host dn = host n \<and> port dn = port n) allNodes"

text \<open>
  One tick of the timer set up in \<open>initDHT\<close>: the nodes handed to \<open>dht.addNode\<close>, in
  order. \<open>host0\<close> and \<open>port0\<close> are the local \<open>publicIp\<close> and \<open>peerPort\<close>.
\<close>

definition reconnectSeeds :: "node list \<Rightarrow> string \<Rightarrow> int \<Rightarrow> node list \<Rightarrow> node list" where
  "reconnectSeeds bootstrapNodes host0 port0 allNodes =
     filter (\<lambda>n. host n \<noteq> host0 \<and> port n \<noteq> port0)
       (filter (\<lambda>node. \<not> isInDht allNodes node) bootstrapNodes)"

text \<open>
  \<open>findSeenNodesInDb\<close> drops the local node from the stored nodes by comparing the
  whole address \<open>host:port\<close>, then keeps the first node of each address.
\<close>

definition addressOf :: "string \<Rightarrow> int \<Rightarrow> string" where
  "addressOf h p =
     h @ '':'' @ (if p < 0 then ''-'' @ toStringRadix 10 (nat (- p)) else toStringRadix 10 (nat p))"

fun firstOfEachAddress :: "string list \<Rightarrow> node list \<Rightarrow> node list" where
  "firstOfEachAddress seen [] = []"
| "firstOfEachAddress seen (n # ns) =
     (if addressOf (host n) (port n) \<in> set seen then firstOfEachAddress seen ns
      else n # firstOfEachAddress (addressOf (host n) (port n) # seen) ns)"

definition findSeenNodesInDb :: "string \<Rightarrow> int \<Rightarrow> node list \<Rightarrow> node list" where
  "findSeenNodesInDb publicIp peerPort nodes =
     firstOfEachAddress []
       (filter (\<lambda>n. addressOf (host n) (port n) \<noteq> addressOf publicIp peerPort) nodes)"

section \<open>An environment for examples\<close>

text \<open>
  A small instance of the external modules, on which the model can be evaluated: the
  hash starts with two copies of the last byte of its input less \<open>0x28\<close> and goes on
  with 30 zero bytes, a signature is valid when it equals a non-empty public key, and
  verifying against an empty key throws.
\<close>

definition exampleEnv :: env where
  "exampleEnv =
     \<lparr>delegates = 101,
      leading = 2,
      sha256 = (\<lambda>src. [if src = [] then 0 else last src - 0x28,
                         if src = [] then 0 else last src - 0x28,
                         0, 0, 0, 0, 0, 0, 0, 0, 0, 0, 0, 0, 0, 0, 0,
                         0, 0, 0, 0, 0, 0, 0, 0, 0, 0, 0, 0, 0, 0, 0]),
      edVerify = (\<lambda>msg sg pk. if pk = [] then Inl (Thrown ''bad public key'') else Inr (sg = pk)),
      voteBytes = (\<lambda>h i. Inr []),
      proposeBytes = (\<lambda>p. Inr [1, 2, 3]),
      getDelegateIndex = (\<lambda>p. Inr 2)\<rparr>"

text \<open>A pending block, a vote for it (one key twice, one bad signature, one key that
  is no hex string, one key that names a property of every object), and a vote for
  another block of the same height.\<close>

definition exampleBlock :: block where
  "exampleBlock = \<lparr>height = 10, id' = ''A'', timestamp = 5, generatorPublicKey = ''aa''\<rparr>"

definition exampleVotes :: incoming_votes where
  "exampleVotes =
     \<lparr>height = 10, id' = ''A'', timestamp = 5,
      signatures = Val [\<lparr>key = ''02'', sig = ''02''\<rparr>, \<lparr>key = ''03'', sig = ''04''\<rparr>,
                        \<lparr>key = ''02'', sig = ''02''\<rparr>, \<lparr>key = ''zz'', sig = []\<rparr>,
                        \<lparr>key = ''toString'', sig = []\<rparr>]\<rparr>"

definition staleVotes :: incoming_votes where
  "staleVotes =
     \<lparr>height = 10, id' = ''B'', timestamp = 5,
      signatures = Val [\<lparr>key = ''07'', sig = ''07''\<rparr>]\<rparr>"

definition exampleState :: consensus where
  "exampleState =
     \<lparr>pendingBlock = Some exampleBlock,
      pendingVotes = Some \<lparr>height = 10, id' = ''A'', timestamp = 5,
                            signatures = [\<lparr>key = ''01'', sig = ''01''\<rparr>]\<rparr>,
      votesKeySet = {''01''}\<rparr>"

text \<open>
  A proposal that passes the proof of work of \<open>exampleEnv\<close>: the source string ends
  with the digit 8, the hash starts with two bytes \<open>0x10\<close>, the difficulty is \<open>10\<close>; the
  first two bytes of the submitted hash carry bits that the mask clears. The second
  proposal has a public key that is no hex string.
\<close>

definition examplePropose :: propose where
  "examplePropose =
     \<lparr>height = 10, id' = ''A'', timestamp = 5, generatorPublicKey = ''aa'',
      address = ''192.168.0.1:7000'',
      hash = ''9098000000000000000000000000000000000000000000000000000000000000'',
      nonce = 12345678,
      signature = ''aa''\<rparr>"

definition malformedPropose :: propose where
  "malformedPropose = examplePropose\<lparr>generatorPublicKey := ''zz''\<rparr>"

text \<open>Two bootstrap seeds, for a local node at \<open>10.0.0.1:7000\<close>: another host on the
  same port, and another port on the same host.\<close>

definition exampleSeeds :: "node list" where
  "exampleSeeds = [\<lparr>host = ''10.0.0.2'', port = 7000\<rparr>, \<lparr>host = ''10.0.0.1'', port = 7001\<rparr>]"

section \<open>Predicates of the proofs\<close>


text \<open>The keys of \<open>votesKeySet\<close> are the keys of the accumulator, each held once.\<close>

definition consistent :: "consensus \<Rightarrow> bool" where
  "consistent s = (votesKeySet s = set (pendingKeys s) \<and> distinct (pendingKeys s))"

section \<open>The vote loop\<close>

lemma verifyVote_total: "\<exists>ok. verifyVote E h i item = Inr ok"
  by (cases "verifyVote_try E h i item") (auto simp add: verifyVote_def)



lemma setKey_fresh: "\<not> hasKey ks k \<Longrightarrow> setKey ks k = insert k ks"
  by (auto simp add: hasKey_def setKey_def objectPrototypeKeys_def)


lemma pushVote_votesKeySet:
  "votesKeySet (pushVote v item s) = setKey (votesKeySet s) (key item)"
  by (simp add: pushVote_def Let_def)

lemma pushVote_pendingKeys: "pendingKeys (pushVote v item s) = pendingKeys s @ [key item]"
  by (simp add: pushVote_def pendingKeys_def Let_def split: option.splits)







section \<open>The invariant of the pending state\<close>

lemma pushVote_consistent:
  "consistent s \<Longrightarrow> \<not> hasKey (votesKeySet s) (key item) \<Longrightarrow> consistent (pushVote v item s)"
  by (auto simp add: consistent_def pushVote_votesKeySet pushVote_pendingKeys setKey_fresh
      hasKey_def)

lemma addSignatures_consistent:
  "consistent s \<Longrightarrow> consistent (snd (addSignatures E v items s))"
proof (induction items arbitrary: s)
  case Nil
  then show ?case by simp
next
  case (Cons item rest)
  obtain ok where "verifyVote E (height v) (id' v) item = Inr ok"
    using verifyVote_total by blast
  then show ?case using Cons
    by (simp add: pushVote_consistent)
qed

lemma addPendingVotes_consistent:
  assumes "consistent s"
  shows "consistent (snd (addPendingVotes E v s))"
proof -
  have "consistent (snd (addSignatures E v items s))" for items
    using assms by (rule addSignatures_consistent)
  then have "addSignatures E v items s = (r, s') \<Longrightarrow> consistent s'" for items r s'
    by (metis snd_conv)
  then show ?thesis using assms
    by (auto simp add: addPendingVotes_def
        split: option.splits sum.splits nullable.splits prod.splits)
qed

lemma step_consistent:
  assumes "consistent s"
  shows "consistent (step E s x)"
proof (cases x)
  case (SetPendingBlock b)
  then show ?thesis by (simp add: setPendingBlock_def consistent_def pendingKeys_def)
next
  case ClearState
  then show ?thesis by (simp add: clearState_def consistent_def pendingKeys_def)
next
  case (AddPendingVotes v)
  then show ?thesis using assms by (simp add: addPendingVotes_consistent)
qed

lemma run_consistent: "consistent (run E ops)"
proof (induction ops rule: rev_induct)
  case Nil
  show ?case by (simp add: run_def initialState_def consistent_def pendingKeys_def)
next
  case (snoc x xs)
  then show ?case by (simp add: run_def step_consistent)
qed

lemmas example_defs =
  exampleEnv_def exampleBlock_def exampleVotes_def staleVotes_def exampleState_def


section \<open>Claims on the pending state and the vote threshold\<close>

text \<open>
  Claim C1. For a votes object that carries an array of signatures, \<open>hasEnoughVotes\<close>
  returns the boolean \<open>|signatures| > 2 * D / 3\<close> with \<open>D = slots.delegates\<close>; it is
  \<open>true\<close> exactly when the number of signatures exceeds the integer part of
  \<open>2 * D / 3\<close>. With 101 delegates it is \<open>true\<close> from 68 signatures on, so 67 signatures
  give \<open>false\<close> and 68 give \<open>true\<close>.
\<close>

theorem hasEnoughVotes_threshold:
  "hasEnoughVotes E (Val (v\<lparr>signatures := Val sigs\<rparr>))
     = Inr (JBool (real (length sigs) > 2 * real (delegates E) / 3))
   \<and> (hasEnoughVotes E (Val (v\<lparr>signatures := Val sigs\<rparr>)) = Inr (JBool True)
        \<longleftrightarrow> length sigs > (2 * delegates E) div 3)
   \<and> hasEnoughVotes (E\<lparr>delegates := 101\<rparr>) (Val (v\<lparr>signatures := Val sigs\<rparr>))
       = Inr (JBool (68 \<le> length sigs))"
proof -
  have a: "(2 * real D / 3 < real n) = (2 * D div 3 < n)" for D n :: nat
  proof -
    have "(2 * real D / 3 < real n) = (2 * real D < 3 * real n)"
      by (simp add: field_simps)
    also have "\<dots> = (2 * D < 3 * n)"
      by (metis of_nat_less_iff of_nat_mult of_nat_numeral)
    also have "\<dots> = (2 * D div 3 < n)"
      by presburger
    finally show ?thesis .
  qed
  show ?thesis using a [of "delegates E" "length sigs"] a [of 101 "length sigs"]
    by (auto simp add: hasEnoughVotes_def)
qed

text \<open>
  Claim C10. \<open>hasEnoughVotes\<close> and \<open>hasEnoughVotesRemote\<close> do not throw on a missing
  argument: for \<open>undefined\<close>, for \<open>null\<close>, and for a votes object whose \<open>signatures\<close>
  property is \<open>undefined\<close> or \<open>null\<close>, both return that falsy value itself.
\<close>

theorem hasEnoughVotes_total:
  "hasEnoughVotes E Undefined = Inr JUndefined
   \<and> hasEnoughVotes E Null = Inr JNull
   \<and> hasEnoughVotes E (Val (v\<lparr>signatures := Undefined\<rparr>)) = Inr JUndefined
   \<and> hasEnoughVotes E (Val (v\<lparr>signatures := Null\<rparr>)) = Inr JNull
   \<and> hasEnoughVotesRemote Undefined = Inr JUndefined
   \<and> hasEnoughVotesRemote Null = Inr JNull
   \<and> hasEnoughVotesRemote (Val (v\<lparr>signatures := Undefined\<rparr>)) = Inr JUndefined
   \<and> hasEnoughVotesRemote (Val (v\<lparr>signatures := Null\<rparr>)) = Inr JNull
   \<and> \<not> truthy JUndefined \<and> \<not> truthy JNull"
  by (simp add: hasEnoughVotes_def hasEnoughVotesRemote_def)

text \<open>
  Claim C3. When there is no pending block, or the height or the id of the incoming
  vote differs from the pending block's, \<open>addPendingVotes\<close> returns the current
  accumulator, throws nothing and leaves the whole state as it was.
\<close>

theorem addPendingVotes_stale:
  assumes "pendingBlock s = None
           \<or> (\<exists>b. pendingBlock s = Some b \<and> (height b \<noteq> height v \<or> id' b \<noteq> id' v))"
  shows "addPendingVotes E v s = (Inr (pendingVotes s), s)"
  using assms by (auto simp add: addPendingVotes_def)

theorem addPendingVotes_stale_witness:
  "pendingBlock exampleState = Some exampleBlock
   \<and> height exampleBlock = height staleVotes
   \<and> id' exampleBlock \<noteq> id' staleVotes
   \<and> addPendingVotes exampleEnv staleVotes exampleState
       = (Inr (pendingVotes exampleState), exampleState)
   \<and> pendingKeys exampleState = [''01'']"
  using addPendingVotes_stale [of exampleState staleVotes exampleEnv]
  by (simp add: example_defs pendingKeys_def)



text \<open>
  Claim C5. After any sequence of \<open>setPendingBlock\<close>, \<open>clearState\<close> and
  \<open>addPendingVotes\<close> from the initial state, the keys of \<open>votesKeySet\<close> are the keys of
  the signatures in \<open>pendingVotes\<close>, none when \<open>pendingVotes\<close> is \<open>null\<close>.
\<close>

theorem votesKeySet_invariant: "votesKeySet (run E ops) = set (pendingKeys (run E ops))"
  using run_consistent [of E ops] by (simp add: consistent_def)

text \<open>
  Claim C6. After \<open>setPendingBlock(b)\<close>, whatever the state before, the pending block
  is \<open>b\<close>, \<open>pendingVotes\<close> is \<open>null\<close> and \<open>votesKeySet\<close> is empty: no accumulated
  signature is left.
\<close>

theorem setPendingBlock_resets:
  "pendingBlock (setPendingBlock b s) = Some b
   \<and> pendingVotes (setPendingBlock b s) = None
   \<and> votesKeySet (setPendingBlock b s) = {}
   \<and> pendingKeys (setPendingBlock b s) = []"
  by (simp add: setPendingBlock_def pendingKeys_def)

section \<open>Buffers, hex strings and the mask\<close>

text \<open>Keeping the bits \<open>0x77\<close> of a byte is clearing its bits \<open>0x88\<close>.\<close>

lemma keep_is_clear: "(v :: byte) AND 0x77 = v AND NOT 0x88"
proof -
  have h: "(0x77 :: byte) = NOT 0x88" by simp
  show ?thesis by (subst h) (rule refl)
qed

lemma maskLoop_eq:
  "i \<le> length buf \<Longrightarrow> maskLoop k i buf =
     (if i + k \<le> length buf
      then Inr (take i buf @ map (\<lambda>v. v AND 0x77) (take k (drop i buf)) @ drop (i + k) buf)
      else Inl RangeError)"
proof (induction k arbitrary: i buf)
  case 0
  then show ?case by simp
next
  case (Suc k)
  show ?case
  proof (cases "i < length buf")
    case False
    then show ?thesis by simp
  next
    case True
    have d: "drop i buf = buf ! i # drop (Suc i) buf"
      using True by (simp add: Cons_nth_drop_Suc)
    have t: "take (Suc i) (buf[i := x]) = take i buf @ [x]" for x
      using True by (simp add: take_Suc_conv_app_nth)
    show ?thesis using True Suc.IH [of "Suc i" "buf[i := buf ! i AND 0x77]"]
      by (simp add: d t)
  qed
qed

lemma maskLoop_mask_spec:
  "maskLoop L 0 buf = (if L \<le> length buf then Inr (mask_spec L buf) else Inl RangeError)"
  by (simp add: maskLoop_eq mask_spec_def keep_is_clear)











lemmas pow_defs =
  verifyPOW_def acceptPropose_def verifySignature_try_def getAddressIndex_def
  getProposeHash_def getVoteHash_def utf8_def
  entanmoPoWVerifier_def proposePoWHashConvert_def toHex_def hexByte_def digitChar_def
  unhex_def padStart_def indexOf_def toStringRadix.simps maskLoop_mask_spec mask_spec_def

section \<open>Claims on the verification of a proposal\<close>



text \<open>
  Claim C7. Checking a signature never lets an exception out. \<open>verifyVote\<close> always
  returns a boolean, and \<open>false\<close> whenever something throws inside its \<open>try\<close> block.
  Once the proof of work has passed, \<open>acceptPropose\<close> always reaches its callback, and
  an exception thrown inside its \<open>try\<close> block reaches the callback as a rejection.
\<close>

theorem signature_checks_never_throw:
  "(\<exists>ok. verifyVote E h i item = Inr ok)
   \<and> (\<forall>e. verifyVote_try E h i item = Inl e \<longrightarrow> verifyVote E h i item = Inr False)
   \<and> (verifyPOW E p = Inr (Inr True) \<longrightarrow>
        (\<exists>r. acceptPropose E p = Inr r)
        \<and> (\<forall>e. verifySignature_try E p = Inl e \<longrightarrow>
              acceptPropose E p = Inr (Some (SignatureException e))))"
  by (cases "verifyVote_try E h i item"; cases "verifySignature_try E p")
    (auto simp add: verifyVote_def acceptPropose_def)

theorem signature_checks_never_throw_witness:
  "verifyVote_try exampleEnv 10 ''A'' \<lparr>key = ''zz'', sig = ''02''\<rparr>
     = Inl (Thrown ''bad public key'')
   \<and> verifyVote exampleEnv 10 ''A'' \<lparr>key = ''zz'', sig = ''02''\<rparr> = Inr False
   \<and> verifyPOW exampleEnv malformedPropose = Inr (Inr True)
   \<and> verifySignature_try exampleEnv malformedPropose = Inl (Thrown ''bad public key'')
   \<and> acceptPropose exampleEnv malformedPropose
       = Inr (Some (SignatureException (Thrown ''bad public key'')))"
  using signature_checks_never_throw
    [of exampleEnv 10 "''A''" "\<lparr>key = ''zz'', sig = ''02''\<rparr>" malformedPropose]
  by (simp add: example_defs examplePropose_def malformedPropose_def pow_defs
      verifyVote_def verifyVote_try_def)

section \<open>Claims on the peer module\<close>

lemma compareVersions_triple:
  fixes x y z :: "'a::linorder"
  shows "compareVersions [Num x, Num y, Num z] [Num p, Num q, Num r]
           \<longleftrightarrow> (p, q, r) \<le> (x, y, z)"
  by (auto simp add: less_eq_prod_def)

text \<open>
  Claim C8. \<open>isCompatible\<close> returns \<open>true\<close> for a version that does not split at its
  dots into exactly three components. For a version \<open>a.b.c\<close> whose components convert
  to the numbers \<open>x\<close>, \<open>y\<close>, \<open>z\<close> it returns \<open>true\<close> exactly when \<open>(x, y, z)\<close> is, in
  the lexicographic order, at least \<open>(1, 3, 1)\<close> on mainnet and at least \<open>(1, 2, 3)\<close> on
  testnet. \<open>Number\<close> is any conversion that reads the strings 1, 2 and 3 as these
  numbers.
\<close>

theorem isCompatible_minimum:
  fixes Number :: "string \<Rightarrow> 'a::{linorder,numeral} jsnum"
  assumes "Number ''1'' = Num 1" and "Number ''2'' = Num 2" and "Number ''3'' = Num 3"
  shows "(length (splitString CHR ''.'' version) \<noteq> 3
            \<longrightarrow> isCompatible Number netVersion version)
       \<and> (splitString CHR ''.'' version = [a, b, c]
            \<and> Number a = Num x \<and> Number b = Num y \<and> Number c = Num z \<longrightarrow>
            (isCompatible Number ''mainnet'' version \<longleftrightarrow> (1, 3, 1) \<le> (x, y, z))
          \<and> (isCompatible Number ''testnet'' version \<longleftrightarrow> (1, 2, 3) \<le> (x, y, z)))"
proof -
  have m: "map Number (splitString CHR ''.'' ''1.3.1'') = [Num 1, Num 3, Num 1]"
    using assms by (simp add: splitString_def)
  have t: "map Number (splitString CHR ''.'' ''1.2.3'') = [Num 1, Num 2, Num 3]"
    using assms by (simp add: splitString_def)
  show ?thesis
    by (simp add: isCompatible_def Let_def m t compareVersions_triple
        del: compareVersions.simps)
qed

theorem isCompatible_minimum_witness:
  "decimalNumber ''1'' = Num 1 \<and> decimalNumber ''2'' = Num 2 \<and> decimalNumber ''3'' = Num 3
   \<and> splitString CHR ''.'' ''1.3.0'' = [''1'', ''3'', ''0'']
   \<and> decimalNumber ''0'' = Num 0
   \<and> \<not> isCompatible decimalNumber ''mainnet'' ''1.3.0''
   \<and> isCompatible decimalNumber ''testnet'' ''1.3.0''
   \<and> \<not> (1, 3, 1) \<le> (1 :: int, 3 :: int, 0 :: int)
   \<and> (1, 2, 3) \<le> (1 :: int, 3 :: int, 0 :: int)
   \<and> length (splitString CHR ''.'' ''1.3'') = 2
   \<and> isCompatible decimalNumber ''mainnet'' ''1.3''"
  using isCompatible_minimum
      [of decimalNumber "''1.3.0''" "''mainnet''" "''1''" "''3''" "''0''" 1 3 0]
    isCompatible_minimum [of decimalNumber "''1.3''" "''mainnet''"]
  by (simp add: decimalNumber_def splitString_def less_eq_prod_def)

text \<open>
  Claim C9. The claim is that a reconnect tick re-inserts every bootstrap seed that is
  missing from the routing table, the local node alone excepted. The filter of the tick
  keeps a seed only when its host and its port both differ from the local ones. For the
  local node \<open>10.0.0.1:7000\<close> and an empty routing table, neither of the two seeds
  \<open>10.0.0.2:7000\<close> and \<open>10.0.0.1:7001\<close> is the local node, and neither is re-inserted;
  \<open>findSeenNodesInDb\<close>, which drops the local node by its whole address, keeps both.
\<close>

theorem reconnectSeeds_skips_other_nodes:
  "filter (\<lambda>n. \<not> isInDht [] n \<and> \<not> (host n = ''10.0.0.1'' \<and> port n = 7000)) exampleSeeds
     = exampleSeeds
   \<and> reconnectSeeds exampleSeeds ''10.0.0.1'' 7000 [] = []
   \<and> findSeenNodesInDb ''10.0.0.1'' 7000 exampleSeeds = exampleSeeds"
  by (simp add: exampleSeeds_def reconnectSeeds_def isInDht_def findSeenNodesInDb_def
      addressOf_def toStringRadix.simps digitChar_def)

end
